theory Spec2Isabelle
  imports Complex_Main
begin

section \<open>Python values, exceptions and the services the program calls\<close>

text \<open>
  The program is two Python modules: \<^verbatim>\<open>rag_service.py\<close> (extraction of search intent,
  filter compilation and search, grounded answer generation, the chat entry point
  \<^verbatim>\<open>respond\<close>) and \<^verbatim>\<open>app.py\<close> (two HTTP handlers behind an API key, with an error
  log). Every source function becomes a HOL function of the same name. A raised exception
  is the left injection of a sum, a returned value the right injection.

  What \<^verbatim>\<open>json.loads\<close> returns is a value of the type \<open>json\<close>. A Python \<^verbatim>\<open>dict\<close> is an
  association list in insertion order with distinct keys, read with \<^const>\<open>map_of\<close>.
  Floats are carried as rationals (only their being zero or not is ever inspected).
\<close>

datatype json =
    JNull
  | JBool bool
  | JInt int
  | JFloat rat
  | JStr string
  | JArr "json list"
  | JObj "(string \<times> json) list"

text \<open>
  The exception classes that occur. \<open>RemoteError\<close> stands for whatever one of the
  external services (language model, vector store) raises; its argument identifies it.
\<close>

datatype py_error =
    JSONDecodeError
  | ValueError
  | TypeError
  | AttributeError
  | KeyError
  | RemoteError string

text \<open>\<^verbatim>\<open>except ValueError\<close> also catches the subclass \<^verbatim>\<open>json.JSONDecodeError\<close>.\<close>

definition except_ValueError :: "py_error \<Rightarrow> bool" where
  "except_ValueError e = (e = ValueError \<or> e = JSONDecodeError)"

text \<open>Truth value of an object in a condition (\<^verbatim>\<open>if x:\<close>).\<close>

fun truthy :: "json \<Rightarrow> bool" where
  "truthy JNull = False"
| "truthy (JBool b) = b"
| "truthy (JInt n) = (n \<noteq> 0)"
| "truthy (JFloat r) = (r \<noteq> 0)"
| "truthy (JStr s) = (s \<noteq> [])"
| "truthy (JArr xs) = (xs \<noteq> [])"
| "truthy (JObj d) = (d \<noteq> [])"

fun starts_with :: "string \<Rightarrow> string \<Rightarrow> bool" where
  "starts_with s [] = True"
| "starts_with [] (c # p) = False"
| "starts_with (x # s) (c # p) = (x = c \<and> starts_with s p)"

fun str_contains :: "string \<Rightarrow> string \<Rightarrow> bool" where
  "str_contains [] p = (p = [])"
| "str_contains (x # s) p = (starts_with (x # s) p \<or> str_contains s p)"

text \<open>
  \<^verbatim>\<open>k in v\<close> for a string \<open>k\<close>: key membership in a dict, element membership in a
  list, substring test in a string, \<^verbatim>\<open>TypeError\<close> on \<^verbatim>\<open>None\<close>, a bool or a number.
\<close>

fun py_in :: "string \<Rightarrow> json \<Rightarrow> py_error + bool" where
  "py_in k (JObj d) = Inr (case map_of d k of None \<Rightarrow> False | Some v \<Rightarrow> True)"
| "py_in k (JArr xs) = Inr (List.member xs (JStr k))"
| "py_in k (JStr s) = Inr (str_contains s k)"
| "py_in k JNull = Inl TypeError"
| "py_in k (JBool b) = Inl TypeError"
| "py_in k (JInt n) = Inl TypeError"
| "py_in k (JFloat r) = Inl TypeError"

text \<open>
  \<^verbatim>\<open>v[k]\<close> for a string \<open>k\<close>: the dict's value; a list or a string refuses a string
  index and the other objects are not subscriptable (\<^verbatim>\<open>TypeError\<close> both times).
\<close>

fun py_getitem :: "json \<Rightarrow> string \<Rightarrow> py_error + json" where
  "py_getitem (JObj d) k = (case map_of d k of None \<Rightarrow> Inl KeyError | Some v \<Rightarrow> Inr v)"
| "py_getitem JNull k = Inl TypeError"
| "py_getitem (JBool b) k = Inl TypeError"
| "py_getitem (JInt n) k = Inl TypeError"
| "py_getitem (JFloat r) k = Inl TypeError"
| "py_getitem (JStr s) k = Inl TypeError"
| "py_getitem (JArr xs) k = Inl TypeError"

text \<open>\<^verbatim>\<open>v.get(k, default)\<close>: only a dict has the method.\<close>

fun py_get :: "json \<Rightarrow> string \<Rightarrow> json \<Rightarrow> py_error + json" where
  "py_get (JObj d) k dflt = Inr (case map_of d k of None \<Rightarrow> dflt | Some v \<Rightarrow> v)"
| "py_get JNull k dflt = Inl AttributeError"
| "py_get (JBool b) k dflt = Inl AttributeError"
| "py_get (JInt n) k dflt = Inl AttributeError"
| "py_get (JFloat r) k dflt = Inl AttributeError"
| "py_get (JStr s) k dflt = Inl AttributeError"
| "py_get (JArr xs) k dflt = Inl AttributeError"

text \<open>\<^verbatim>\<open>isinstance(v, dict)\<close>: whether a decoded value is a JSON object.\<close>

fun is_dict :: "json \<Rightarrow> bool" where
  "is_dict (JObj d) = True"
| "is_dict JNull = False"
| "is_dict (JBool b) = False"
| "is_dict (JInt n) = False"
| "is_dict (JFloat r) = False"
| "is_dict (JStr s) = False"
| "is_dict (JArr xs) = False"

subsection \<open>Data of the pipeline\<close>

text \<open>
  A chat message: a dict with the keys \<^verbatim>\<open>role\<close> and \<^verbatim>\<open>content\<close>, as the
  docstrings of \<^verbatim>\<open>rag_service.py\<close> require; both are text.
\<close>

record message =
  role :: string
  content :: string

text \<open>
  What \<^verbatim>\<open>extract_queries_and_date_filters\<close> returns: the dict with the keys
  \<^verbatim>\<open>queries\<close> and \<^verbatim>\<open>date_filter\<close>, and \<^verbatim>\<open>error\<close> on the fallback path only.
\<close>

record extraction =
  queries :: json
  date_filter :: "(string \<times> json) list"
  error :: "string option"

text \<open>A \<^verbatim>\<open>datetime\<close> as \<^verbatim>\<open>strptime\<close> with a date-only format builds it (midnight).\<close>

record datetime =
  year :: int
  month :: int
  day :: int

text \<open>
  The store's filter objects: \<^verbatim>\<open>models.DatetimeRange\<close> (its bounds \<^verbatim>\<open>gt\<close> and \<^verbatim>\<open>lt\<close>
  are never set by the program), \<^verbatim>\<open>models.FieldCondition\<close> and \<^verbatim>\<open>models.Filter\<close>.
\<close>

record DatetimeRange =
  gte :: "datetime option"
  lte :: "datetime option"

record FieldCondition =
  key :: string
  range_cond :: DatetimeRange

record Filter =
  must :: "FieldCondition list"

text \<open>A stored document as the search returns it, and an article as the program returns it.\<close>

record document =
  page_content :: string
  metadata :: "(string \<times> string) list"

record news_article =
  title :: string
  url :: string
  date :: string

subsection \<open>The environment\<close>

text \<open>
  Everything the program reads from outside itself is a field of the environment:
  the language-model client (\<^verbatim>\<open>client.chat.completions.create\<close> with the model name, the
  messages and the requested response format, returning the content of the first choice),
  the vector store (\<^verbatim>\<open>vector_store.similarity_search\<close> with query, \<open>k\<close> and filter), the
  library functions \<^verbatim>\<open>json.loads\<close> (\<open>None\<close> when it raises \<^verbatim>\<open>JSONDecodeError\<close>) and
  \<^verbatim>\<open>datetime.strptime\<close> with the format \<^verbatim>\<open>%Y-%m-%d\<close>, the clock, the interpreter's
  \<^verbatim>\<open>str\<close> of an exception and of a message list, \<^verbatim>\<open>traceback.format_exc\<close>, and the process
  environment. The two instruction texts are fixed literals of the source whose wording
  no property below depends on; they are fields as well.
\<close>

record env =
  chat_completions_create :: "string \<Rightarrow> message list \<Rightarrow> string option \<Rightarrow> py_error + string"
  similarity_search :: "string \<Rightarrow> int \<Rightarrow> Filter option \<Rightarrow> py_error + document list"
  json_loads :: "string \<Rightarrow> json option"
  strptime_Ymd :: "json \<Rightarrow> py_error + datetime"
  datetime_now :: string
  log_time :: string
  str_exc :: "py_error \<Rightarrow> string"
  str_messages :: "message list \<Rightarrow> string"
  format_exc :: "py_error \<Rightarrow> string"
  getenv :: "string \<Rightarrow> string option"
  extraction_instructions :: string
  rag_instructions :: string

section \<open>rag\_service.py\<close>

subsection \<open>extract\_queries\_and\_date\_filters\<close>

text \<open>The system prompt ends with the current time; the chat history is copied after it.\<close>

definition extraction_messages :: "env \<Rightarrow> message list \<Rightarrow> message list" where
  "extraction_messages w msgs =
     \<lparr>role = ''system'', content = extraction_instructions w @ ''Date now: '' @ datetime_now w\<rparr>
       # map (\<lambda>msg. \<lparr>role = role msg, content = content msg\<rparr>) msgs"

text \<open>
  The two conditional copies of the bounds, in source order: \<^verbatim>\<open>gte\<close> first, then
  \<^verbatim>\<open>lte\<close>. The value is copied as the model gave it.
\<close>

definition copy_bound ::
  "json \<Rightarrow> string \<Rightarrow> (string \<times> json) list \<Rightarrow> py_error + (string \<times> json) list" where
  "copy_bound df k acc =
     (case py_in k df of
        Inl e \<Rightarrow> Inl e
      | Inr present \<Rightarrow>
          if present then
            (case py_getitem df k of
               Inl e \<Rightarrow> Inl e
             | Inr v \<Rightarrow> Inr (acc @ [(k, v)]))
          else Inr acc)"

definition copy_date_filter :: "json \<Rightarrow> py_error + (string \<times> json) list" where
  "copy_date_filter df =
     (case copy_bound df ''gte'' [] of
        Inl e \<Rightarrow> Inl e
      | Inr acc \<Rightarrow> copy_bound df ''lte'' acc)"

text \<open>The body of the \<^verbatim>\<open>try\<close> block after \<^verbatim>\<open>json.loads\<close> has returned.\<close>

definition build_result :: "json \<Rightarrow> py_error + extraction" where
  "build_result extracted_data =
     (case py_get extracted_data ''queries'' (JArr []) of
        Inl e \<Rightarrow> Inl e
      | Inr qs \<Rightarrow>
          (case py_in ''date_filter'' extracted_data of
             Inl e \<Rightarrow> Inl e
           | Inr present \<Rightarrow>
               if present then
                 (case py_getitem extracted_data ''date_filter'' of
                    Inl e \<Rightarrow> Inl e
                  | Inr df \<Rightarrow>
                      (case copy_date_filter df of
                         Inl e \<Rightarrow> Inl e
                       | Inr d \<Rightarrow> Inr \<lparr>queries = qs, date_filter = d, error = None\<rparr>))
               else Inr \<lparr>queries = qs, date_filter = [], error = None\<rparr>))"

definition extract_try :: "env \<Rightarrow> string \<Rightarrow> py_error + extraction" where
  "extract_try w completion =
     (case json_loads w completion of
        None \<Rightarrow> Inl JSONDecodeError
      | Some extracted_data \<Rightarrow> build_result extracted_data)"

text \<open>
  The model call stands before the \<^verbatim>\<open>try\<close>; the handler catches
  \<^verbatim>\<open>json.JSONDecodeError\<close> only, every other exception of the block leaves the function.
\<close>

definition extract_queries_and_date_filters :: "env \<Rightarrow> message list \<Rightarrow> py_error + extraction" where
  "extract_queries_and_date_filters w msgs =
     (case chat_completions_create w ''gpt-4o'' (extraction_messages w msgs) (Some ''json_object'') of
        Inl e \<Rightarrow> Inl e
      | Inr completion \<Rightarrow>
          (case extract_try w completion of
             Inl e \<Rightarrow>
               if e = JSONDecodeError
               then Inr \<lparr>queries = JArr [], date_filter = [], error = Some ''JSONDecodeError''\<rparr>
               else Inl e
           | Inr result \<Rightarrow> Inr result))"

subsection \<open>generate\_rag\_response\<close>

text \<open>
  \<^verbatim>\<open>next((msg["content"] for msg in reversed(messages) if msg["role"] == "user"), "")\<close>
\<close>

definition last_user_message :: "message list \<Rightarrow> string" where
  "last_user_message msgs =
     (case filter (\<lambda>msg. role msg = ''user'') (rev msgs) of
        [] \<Rightarrow> ''''
      | msg # rest \<Rightarrow> content msg)"

text \<open>\<^verbatim>\<open>str\<close> of a non-negative integer: its decimal digits.\<close>

fun str_nat :: "nat \<Rightarrow> string" where
  "str_nat n =
     (if n < 10 then [''0123456789'' ! n]
      else str_nat (n div 10) @ [''0123456789'' ! (n mod 10)])"

declare str_nat.simps [simp del]

definition newline :: char where
  "newline = CHR 0x0A"

text \<open>
  The loop \<^verbatim>\<open>for i, news in enumerate(retrieved_news): context += ...\<close> with the
  counter and the text built so far as arguments.
\<close>

fun context_loop :: "nat \<Rightarrow> news_article list \<Rightarrow> string \<Rightarrow> string" where
  "context_loop i [] context = context"
| "context_loop i (news # rest) context =
     context_loop (i + 1) rest
       (context @ ''Source '' @ str_nat (i + 1) @ '': '' @ title news @ [newline]
          @ ''URL: '' @ url news @ [newline, newline])"

definition rag_context :: "news_article list \<Rightarrow> string" where
  "rag_context retrieved_news = context_loop 0 retrieved_news ''''"

definition user_prompt :: "string \<Rightarrow> string \<Rightarrow> string" where
  "user_prompt context last_message =
     [newline] @ ''    ### Retrieved News Sources:'' @ [newline]
     @ ''    '' @ [newline]
     @ ''    '' @ context @ [newline]
     @ ''    '' @ [newline]
     @ ''    ### User Question:'' @ [newline]
     @ ''    '' @ last_message @ [newline]
     @ ''    '' @ [newline]
     @ ''    Based on these sources, please provide a detailed answer in Markdown format.''
     @ [newline] @ ''    ''"

definition generate_rag_response :: "env \<Rightarrow> message list \<Rightarrow> news_article list \<Rightarrow> py_error + string" where
  "generate_rag_response w msgs retrieved_news =
     chat_completions_create w ''gpt-4o''
       [\<lparr>role = ''system'', content = rag_instructions w\<rparr>,
        \<lparr>role = ''user'',
         content = user_prompt (rag_context retrieved_news) (last_user_message msgs)\<rparr>]
       None"

subsection \<open>retrieve\_news\<close>

text \<open>
  One bound of the date filter: absent key, parsed date, or a \<^verbatim>\<open>ValueError\<close> of
  \<^verbatim>\<open>strptime\<close> that the \<^verbatim>\<open>except\<close> clause swallows (the bound stays \<^verbatim>\<open>None\<close>). Any
  other exception of \<^verbatim>\<open>strptime\<close> is not caught.
\<close>

definition parse_bound :: "env \<Rightarrow> (string \<times> json) list \<Rightarrow> string \<Rightarrow> py_error + datetime option" where
  "parse_bound w date_filters k =
     (case map_of date_filters k of
        None \<Rightarrow> Inr None
      | Some v \<Rightarrow>
          (case strptime_Ymd w v of
             Inr d \<Rightarrow> Inr (Some d)
           | Inl e \<Rightarrow> if except_ValueError e then Inr None else Inl e))"

definition is_not_None :: "'a option \<Rightarrow> bool" where
  "is_not_None x = (case x of None \<Rightarrow> False | Some v \<Rightarrow> True)"

text \<open>The list \<^verbatim>\<open>must_conditions\<close> after the block guarded by \<^verbatim>\<open>if date_filters:\<close>.\<close>

definition must_conditions :: "env \<Rightarrow> (string \<times> json) list \<Rightarrow> py_error + FieldCondition list" where
  "must_conditions w date_filters =
     (if date_filters = [] then Inr []
      else
        (case parse_bound w date_filters ''gte'' of
           Inl e \<Rightarrow> Inl e
         | Inr g \<Rightarrow>
             (case parse_bound w date_filters ''lte'' of
                Inl e \<Rightarrow> Inl e
              | Inr l \<Rightarrow>
                  if is_not_None g \<or> is_not_None l
                  then Inr [\<lparr>key = ''metadata.date'', range_cond = \<lparr>gte = g, lte = l\<rparr>\<rparr>]
                  else Inr [])))"

text \<open>\<^verbatim>\<open>filter_condition\<close>: \<^verbatim>\<open>None\<close> unless there is a condition.\<close>

definition filter_condition :: "env \<Rightarrow> (string \<times> json) list \<Rightarrow> py_error + Filter option" where
  "filter_condition w date_filters =
     (case must_conditions w date_filters of
        Inl e \<Rightarrow> Inl e
      | Inr conds \<Rightarrow> if conds = [] then Inr None else Inr (Some \<lparr>must = conds\<rparr>))"

text \<open>\<^verbatim>\<open>doc.metadata.get(k, default)\<close>\<close>

definition metadata_get :: "document \<Rightarrow> string \<Rightarrow> string \<Rightarrow> string" where
  "metadata_get doc k dflt = (case map_of (metadata doc) k of None \<Rightarrow> dflt | Some v \<Rightarrow> v)"

text \<open>The formatting loop, with the list \<^verbatim>\<open>news_articles\<close> built so far as argument.\<close>

fun format_results :: "document list \<Rightarrow> news_article list \<Rightarrow> news_article list" where
  "format_results [] news_articles = news_articles"
| "format_results (doc # rest) news_articles =
     format_results rest
       (news_articles @
          [\<lparr>title = page_content doc,
            url = metadata_get doc ''url'' ''#'',
            date = metadata_get doc ''date'' ''Unknown date''\<rparr>])"

text \<open>
  The parameter \<^verbatim>\<open>max_results=5\<close>: \<open>None\<close> is a call that leaves it out.
\<close>

definition retrieve_news ::
  "env \<Rightarrow> string \<Rightarrow> (string \<times> json) list \<Rightarrow> int option \<Rightarrow> py_error + news_article list" where
  "retrieve_news w q date_filters max_results =
     (case filter_condition w date_filters of
        Inl e \<Rightarrow> Inl e
      | Inr fc \<Rightarrow>
          (case similarity_search w q (case max_results of None \<Rightarrow> 5 | Some k \<Rightarrow> k) fc of
             Inl e \<Rightarrow> Inl e
           | Inr results \<Rightarrow> Inr (format_results results [])))"

subsection \<open>respond\<close>

text \<open>
  \<^verbatim>\<open>" ".join(v)\<close>: the elements of a list must all be strings; a string is
  iterated by character and a dict by key; anything else is not iterable.
\<close>

fun join :: "string \<Rightarrow> string list \<Rightarrow> string" where
  "join sep [] = ''''"
| "join sep [s] = s"
| "join sep (s # t # rest) = s @ sep @ join sep (t # rest)"

fun str_items :: "json list \<Rightarrow> string list option" where
  "str_items [] = Some []"
| "str_items (JStr s # rest) = (case str_items rest of None \<Rightarrow> None | Some ss \<Rightarrow> Some (s # ss))"
| "str_items (v # rest) = None"

fun py_join :: "string \<Rightarrow> json \<Rightarrow> py_error + string" where
  "py_join sep (JArr xs) = (case str_items xs of None \<Rightarrow> Inl TypeError | Some ss \<Rightarrow> Inr (join sep ss))"
| "py_join sep (JStr s) = Inr (join sep (map (\<lambda>c. [c]) s))"
| "py_join sep (JObj d) = Inr (join sep (map fst d))"
| "py_join sep JNull = Inl TypeError"
| "py_join sep (JBool b) = Inl TypeError"
| "py_join sep (JInt n) = Inl TypeError"
| "py_join sep (JFloat r) = Inl TypeError"

text \<open>The history of the chat widget: pairs of a user turn and the assistant's reply.\<close>

fun history_messages :: "(string \<times> string) list \<Rightarrow> message list \<Rightarrow> message list" where
  "history_messages [] msgs = msgs"
| "history_messages (h # rest) msgs =
     history_messages rest
       (msgs @ [\<lparr>role = ''user'', content = fst h\<rparr>, \<lparr>role = ''assistant'', content = snd h\<rparr>])"

definition respond_messages :: "string \<Rightarrow> (string \<times> string) list \<Rightarrow> message list" where
  "respond_messages msg history = history_messages history [] @ [\<lparr>role = ''user'', content = msg\<rparr>]"

text \<open>
  \<^verbatim>\<open>query = " ".join(extracted["queries"]) if extracted["queries"] else message\<close>
\<close>

definition respond_query :: "extraction \<Rightarrow> string \<Rightarrow> py_error + string" where
  "respond_query extracted msg =
     (if truthy (queries extracted) then py_join '' '' (queries extracted) else Inr msg)"

definition respond :: "env \<Rightarrow> string \<Rightarrow> (string \<times> string) list \<Rightarrow> py_error + string" where
  "respond w msg history =
     (case extract_queries_and_date_filters w (respond_messages msg history) of
        Inl e \<Rightarrow> Inl e
      | Inr extracted \<Rightarrow>
          (case respond_query extracted msg of
             Inl e \<Rightarrow> Inl e
           | Inr q \<Rightarrow>
               (case retrieve_news w q (date_filter extracted) None of
                  Inl e \<Rightarrow> Inl e
                | Inr news_articles \<Rightarrow>
                    generate_rag_response w (respond_messages msg history) news_articles)))"

section \<open>app.py\<close>

text \<open>
  The request bodies, the three outcomes of a handler (the two response models and a
  raised \<^verbatim>\<open>HTTPException\<close> with its status code and detail), and a record of the
  question/answer log. Header names are lower case, as the framework normalises them.
\<close>

record RetrievalRequest =
  query :: string

record CompletionRequest =
  messages :: "message list"

datatype http_result =
    RetrievalResponse "news_article list"
  | CompletionResponse string
  | HTTPException nat string

record log_record =
  time :: string
  question :: string
  answer :: string



text \<open>
  \<^verbatim>\<open>write_log\<close> appends one record to the log file of the day; the log is the list of
  records written so far.
\<close>

definition write_log :: "env \<Rightarrow> string \<Rightarrow> string \<Rightarrow> log_record list \<Rightarrow> log_record list" where
  "write_log w q a chat_log = chat_log @ [\<lparr>time = log_time w, question = q, answer = a\<rparr>]"

text \<open>The two texts built in an \<^verbatim>\<open>except Exception as e\<close> block.\<close>

definition error_detail :: "env \<Rightarrow> py_error \<Rightarrow> string" where
  "error_detail w e = str_exc w e @ [newline] @ ''Stack Trace:'' @ [newline] @ format_exc w e"

definition error_answer :: "env \<Rightarrow> py_error \<Rightarrow> string" where
  "error_answer w e =
     ''ERROR: '' @ str_exc w e @ [newline] @ ''Stack Trace:'' @ [newline] @ format_exc w e"

text \<open>The \<^verbatim>\<open>try\<close> block of \<^verbatim>\<open>get_retrieval\<close>, and the handler around it.\<close>

definition get_retrieval_try :: "env \<Rightarrow> RetrievalRequest \<Rightarrow> py_error + http_result" where
  "get_retrieval_try w request =
     (case extract_queries_and_date_filters w [\<lparr>role = ''user'', content = query request\<rparr>] of
        Inl e \<Rightarrow> Inl e
      | Inr extracted \<Rightarrow>
          (case retrieve_news w (query request) (date_filter extracted) None of
             Inl e \<Rightarrow> Inl e
           | Inr articles \<Rightarrow> Inr (RetrievalResponse articles)))"

definition get_retrieval ::
  "env \<Rightarrow> RetrievalRequest \<Rightarrow> log_record list \<Rightarrow> http_result \<times> log_record list" where
  "get_retrieval w request chat_log =
     (case get_retrieval_try w request of
        Inr response \<Rightarrow> (response, chat_log)
      | Inl e \<Rightarrow>
          (HTTPException 500 (error_detail w e),
           write_log w (query request) (error_answer w e) chat_log))"

text \<open>The \<^verbatim>\<open>try\<close> block of \<^verbatim>\<open>get_completion\<close>, and the handler around it.\<close>

definition get_completion_try :: "env \<Rightarrow> CompletionRequest \<Rightarrow> py_error + http_result" where
  "get_completion_try w request =
     (let last_message = last_user_message (messages request) in
      case extract_queries_and_date_filters w (messages request) of
        Inl e \<Rightarrow> Inl e
      | Inr extracted \<Rightarrow>
          (case retrieve_news w last_message (date_filter extracted) None of
             Inl e \<Rightarrow> Inl e
           | Inr articles \<Rightarrow>
               (case generate_rag_response w (messages request) articles of
                  Inl e \<Rightarrow> Inl e
                | Inr response \<Rightarrow> Inr (CompletionResponse response))))"

definition get_completion ::
  "env \<Rightarrow> CompletionRequest \<Rightarrow> log_record list \<Rightarrow> http_result \<times> log_record list" where
  "get_completion w request chat_log =
     (case get_completion_try w request of
        Inr response \<Rightarrow> (response, chat_log)
      | Inl e \<Rightarrow>
          (HTTPException 500 (error_detail w e),
           write_log w (str_messages w (messages request)) (error_answer w e) chat_log))"



section \<open>A concrete environment\<close>

text \<open>
  The properties below hold for every environment. To run the program on concrete
  inputs one environment is fixed here. Its \<^verbatim>\<open>strptime\<close> follows the library on ASCII
  text: the format \<^verbatim>\<open>%Y-%m-%d\<close> is the regular expression
  \<^verbatim>\<open>(\d\d\d\d)-(1[0-2]|0[1-9]|[1-9])-(3[0-1]|[1-2]\d|0[1-9]|[1-9]| [1-9])\<close>, matched at the start
  of the text with backtracking; text left over after the match, a year outside 1..9999
  and a day the month does not have raise \<^verbatim>\<open>ValueError\<close>; an argument that is not a
  string raises \<^verbatim>\<open>TypeError\<close>.
\<close>

fun match_classes :: "string list \<Rightarrow> string \<Rightarrow> string option" where
  "match_classes [] s = Some s"
| "match_classes (cls # p) [] = None"
| "match_classes (cls # p) (c # s) = (if List.member cls c then match_classes p s else None)"

fun alternatives ::
  "string list list \<Rightarrow> string \<Rightarrow> (string \<Rightarrow> string \<Rightarrow> 'a option) \<Rightarrow> 'a option" where
  "alternatives [] s cont = None"
| "alternatives (p # alts) s cont =
     (case match_classes p s of
        None \<Rightarrow> alternatives alts s cont
      | Some r \<Rightarrow>
          (case cont (take (length p) s) r of
             None \<Rightarrow> alternatives alts s cont
           | Some x \<Rightarrow> Some x))"

definition year_pattern :: "string list list" where
  "year_pattern = [[''0123456789'', ''0123456789'', ''0123456789'', ''0123456789'']]"

definition month_pattern :: "string list list" where
  "month_pattern = [[''1'', ''012''], [''0'', ''123456789''], [''123456789'']]"

definition day_pattern :: "string list list" where
  "day_pattern =
     [[''3'', ''01''], [''12'', ''0123456789''], [''0'', ''123456789''], [''123456789''],
      ['' '', ''123456789'']]"

text \<open>\<^verbatim>\<open>int\<close> of a matched group: decimal digits, a leading blank skipped.\<close>

fun int_of_group :: "string \<Rightarrow> int \<Rightarrow> int" where
  "int_of_group [] acc = acc"
| "int_of_group (c # s) acc =
     (if c = CHR '' '' then int_of_group s acc
      else int_of_group s (10 * acc + (int (of_char c) - 48)))"

definition is_leap :: "int \<Rightarrow> bool" where
  "is_leap y = (y mod 4 = 0 \<and> (y mod 400 = 0 \<or> y mod 100 \<noteq> 0))"

definition days_in_month :: "int \<Rightarrow> int \<Rightarrow> int" where
  "days_in_month y m =
     (if m = 2 then (if is_leap y then 29 else 28)
      else if m = 4 \<or> m = 6 \<or> m = 9 \<or> m = 11 then 30
      else 31)"

definition match_Ymd :: "string \<Rightarrow> (string \<times> string \<times> string \<times> string) option" where
  "match_Ymd s =
     alternatives year_pattern s (\<lambda>Y r1.
       alternatives [[''-'']] r1 (\<lambda>dash1 r2.
         alternatives month_pattern r2 (\<lambda>m r3.
           alternatives [[''-'']] r3 (\<lambda>dash2 r4.
             alternatives day_pattern r4 (\<lambda>d r5. Some (Y, m, d, r5))))))"

definition strptime_ascii :: "string \<Rightarrow> py_error + datetime" where
  "strptime_ascii s =
     (case match_Ymd s of
        None \<Rightarrow> Inl ValueError
      | Some (Y, m, d, rest) \<Rightarrow>
          if rest = [] then
            (let y = int_of_group Y 0; mo = int_of_group m 0; dd = int_of_group d 0 in
             if 1 \<le> y \<and> y \<le> 9999 \<and> 1 \<le> dd \<and> dd \<le> days_in_month y mo
             then Inr \<lparr>year = y, month = mo, day = dd\<rparr>
             else Inl ValueError)
          else Inl ValueError)"

definition py_strptime :: "json \<Rightarrow> py_error + datetime" where
  "py_strptime v = (case v of JStr s \<Rightarrow> strptime_ascii s | other \<Rightarrow> Inl TypeError)"

text \<open>
  The vector store holds a list of documents and returns its first \<open>k\<close>. A second
  store answers every search with one document whose text is the query it was asked,
  which makes the query visible in the result; a third one is unreachable.
\<close>

definition list_store :: "document list \<Rightarrow> string \<Rightarrow> int \<Rightarrow> Filter option \<Rightarrow> py_error + document list" where
  "list_store docs q k fc = Inr (take (nat k) docs)"

definition echo_store :: "string \<Rightarrow> int \<Rightarrow> Filter option \<Rightarrow> py_error + document list" where
  "echo_store q k fc = Inr [\<lparr>page_content = q, metadata = []\<rparr>]"

definition down_store :: "string \<Rightarrow> int \<Rightarrow> Filter option \<Rightarrow> py_error + document list" where
  "down_store q k fc = Inl (RemoteError ''connection refused'')"

text \<open>
  The language model answers an extraction call (JSON mode) with a fixed reply, which
  the decoder maps to a fixed outcome, and any other call with the text of the last
  message it was sent.
\<close>

definition example_chat :: "string \<Rightarrow> string \<Rightarrow> message list \<Rightarrow> string option \<Rightarrow> py_error + string" where
  "example_chat reply model msgs response_format =
     (case response_format of
        Some fmt \<Rightarrow> Inr reply
      | None \<Rightarrow> (case rev msgs of [] \<Rightarrow> Inr [] | msg # earlier \<Rightarrow> Inr (content msg)))"

text \<open>
  A list of messages as \<^verbatim>\<open>str\<close> prints it when no text holds a quote, a backslash or a
  control character; an exception of a service prints as its text.
\<close>

definition sq :: char where
  "sq = CHR 0x27"

definition repr_message :: "message \<Rightarrow> string" where
  "repr_message msg =
     ''{'' @ [sq] @ ''role'' @ [sq] @ '': '' @ [sq] @ role msg @ [sq] @ '', ''
       @ [sq] @ ''content'' @ [sq] @ '': '' @ [sq] @ content msg @ [sq] @ ''}''"

definition example_str_messages :: "message list \<Rightarrow> string" where
  "example_str_messages msgs = ''['' @ join '', '' (map repr_message msgs) @ '']''"

definition example_str_exc :: "py_error \<Rightarrow> string" where
  "example_str_exc e = (case e of RemoteError t \<Rightarrow> t | other \<Rightarrow> ''internal error'')"

definition example_env ::
  "string \<Rightarrow> json option \<Rightarrow> (string \<Rightarrow> int \<Rightarrow> Filter option \<Rightarrow> py_error + document list)
     \<Rightarrow> string option \<Rightarrow> env" where
  "example_env reply decoded store secret =
     \<lparr>chat_completions_create = example_chat reply,
      similarity_search = store,
      json_loads = (\<lambda>s. if s = reply then decoded else None),
      strptime_Ymd = py_strptime,
      datetime_now = ''2024-06-01 12:00:00.000000'',
      log_time = ''2024-06-01 12:00:00'',
      str_exc = example_str_exc,
      str_messages = example_str_messages,
      format_exc = (\<lambda>e. ''Traceback (most recent call last):''),
      getenv = (\<lambda>name. if name = ''APP_API_KEY'' then secret else None),
      extraction_instructions = ''Extract search queries and date filters from the conversation.'',
      rag_instructions = ''You are a helpful assistant.''\<rparr>"

text \<open>Replies of the model used below, with what \<^verbatim>\<open>json.loads\<close> makes of each.\<close>

definition dq :: char where
  "dq = CHR 0x22"

definition reply_ai_news :: string where
  "reply_ai_news = ''{'' @ [dq] @ ''queries'' @ [dq] @ '': ['' @ [dq] @ ''AI news'' @ [dq] @ '']}''"

definition json_ai_news :: json where
  "json_ai_news = JObj [(''queries'', JArr [JStr ''AI news''])]"



definition two_docs :: "document list" where
  "two_docs =
     [\<lparr>page_content = ''Chip maker reports record quarter'',
       metadata = [(''url'', ''https://example.org/a''), (''date'', ''2024-05-30'')]\<rparr>,
      \<lparr>page_content = ''New model released'', metadata = []\<rparr>]"

definition seven_docs :: "document list" where
  "seven_docs =
     map (\<lambda>t. \<lparr>page_content = t, metadata = []\<rparr>)
       [''a'', ''b'', ''c'', ''d'', ''e'', ''f'', ''g'']"

section \<open>Auxiliary facts\<close>

lemma py_get_not_dict: "\<not> is_dict v \<Longrightarrow> py_get v k dflt = Inl AttributeError"
  by (cases v) simp_all





text \<open>The formatting loop is a map over the search results, in their order.\<close>

lemma format_results_append:
  "format_results docs acc =
     acc @ map (\<lambda>doc. \<lparr>title = page_content doc,
                        url = (case map_of (metadata doc) ''url'' of None \<Rightarrow> ''#'' | Some u \<Rightarrow> u),
                        date = (case map_of (metadata doc) ''date'' of
                                  None \<Rightarrow> ''Unknown date'' | Some d \<Rightarrow> d)\<rparr>) docs"
  by (induction docs arbitrary: acc) (simp_all add: metadata_get_def)

lemma retrieve_news_returns:
  assumes "retrieve_news w q df max_results = Inr arts"
  obtains fc docs where "filter_condition w df = Inr fc"
    and "similarity_search w q (case max_results of None \<Rightarrow> 5 | Some k \<Rightarrow> k) fc = Inr docs"
    and "arts = format_results docs []"
  using assms by (auto simp: retrieve_news_def split: sum.splits)


lemma last_user_message_single:
  "last_user_message [\<lparr>role = ''user'', content = c\<rparr>] = c"
  by (simp add: last_user_message_def)

lemma last_user_message_snoc:
  "last_user_message (msgs @ [\<lparr>role = ''user'', content = c\<rparr>]) = c"
  by (simp add: last_user_message_def)




lemma strptime_february_30: "py_strptime (JStr ''2024-02-30'') = Inl ValueError"
  by (simp add: py_strptime_def strptime_ascii_def match_Ymd_def year_pattern_def
        month_pattern_def day_pattern_def days_in_month_def is_leap_def)

lemma strptime_number: "py_strptime (JInt 20240531) = Inl TypeError"
  by (simp add: py_strptime_def)

lemma extract_ai_news:
  "extract_queries_and_date_filters (example_env reply_ai_news (Some json_ai_news) store secret) msgs
     = Inr \<lparr>queries = JArr [JStr ''AI news''], date_filter = [], error = None\<rparr>"
  by (simp add: extract_queries_and_date_filters_def extract_try_def build_result_def
        example_env_def example_chat_def json_ai_news_def)

lemma retrieve_echo:
  "retrieve_news (example_env reply decoded echo_store secret) q [] None
     = Inr [\<lparr>title = q, url = ''#'', date = ''Unknown date''\<rparr>]"
  by (simp add: retrieve_news_def filter_condition_def must_conditions_def example_env_def
        echo_store_def metadata_get_def)

lemma generate_echo:
  "generate_rag_response (example_env reply decoded store secret) msgs news
     = Inr (user_prompt (rag_context news) (last_user_message msgs))"
  by (simp add: generate_rag_response_def example_env_def example_chat_def)

lemma rag_context_two:
  "rag_context [\<lparr>title = ''A'', url = ''u'', date = ''d''\<rparr>, \<lparr>title = ''B'', url = ''#'', date = ''e''\<rparr>]
     = ''Source 1: A'' @ [newline] @ ''URL: u'' @ [newline, newline]
       @ ''Source 2: B'' @ [newline] @ ''URL: #'' @ [newline, newline]"
  by (simp add: rag_context_def str_nat.simps)

section \<open>The claims\<close>

text \<open>
  C1. The search query of an entry point that runs extraction and then search should be
  the space-joined extracted queries, and the last user message only when that list is
  empty. \<^verbatim>\<open>respond\<close> does so; \<^verbatim>\<open>get_completion\<close> passes the last user message to
  \<^verbatim>\<open>retrieve_news\<close> whatever was extracted. On the transcript with the one user message
  \<^verbatim>\<open>show me AI news\<close>, for which the model extracts the query list \<^verbatim>\<open>["AI news"]\<close>, the
  store that echoes its query is asked \<^verbatim>\<open>show me AI news\<close> by \<^verbatim>\<open>get_completion\<close> and
  \<^verbatim>\<open>AI news\<close> by \<^verbatim>\<open>respond\<close>.
\<close>

theorem completion_searches_last_message:
  "extract_queries_and_date_filters
      (example_env reply_ai_news (Some json_ai_news) echo_store (Some ''s3cret''))
      [\<lparr>role = ''user'', content = ''show me AI news''\<rparr>]
     = Inr \<lparr>queries = JArr [JStr ''AI news''], date_filter = [], error = None\<rparr>
   \<and> get_completion (example_env reply_ai_news (Some json_ai_news) echo_store (Some ''s3cret''))
        \<lparr>messages = [\<lparr>role = ''user'', content = ''show me AI news''\<rparr>]\<rparr> []
     = (CompletionResponse
          (user_prompt
             (rag_context [\<lparr>title = ''show me AI news'', url = ''#'', date = ''Unknown date''\<rparr>])
             ''show me AI news''), [])
   \<and> respond (example_env reply_ai_news (Some json_ai_news) echo_store (Some ''s3cret''))
        ''show me AI news'' []
     = Inr (user_prompt
              (rag_context [\<lparr>title = ''AI news'', url = ''#'', date = ''Unknown date''\<rparr>])
              ''show me AI news'')"
  by (simp add: extract_ai_news get_completion_def get_completion_try_def retrieve_echo
        generate_echo respond_def respond_messages_def respond_query_def
        last_user_message_single)








text \<open>
  C5. Provided the store returns at most \<open>k\<close> documents when asked for \<open>k \<ge> 1\<close>, a
  list returned by \<^verbatim>\<open>retrieve_news\<close> has at most \<open>k\<close> entries, where \<open>k\<close> is the
  caller's \<^verbatim>\<open>max_results\<close>, or 5 when the caller leaves it out.
\<close>

theorem retrieve_news_at_most_k:
  assumes honours: "\<forall>q k fc docs. 1 \<le> k \<longrightarrow> similarity_search w q k fc = Inr docs
                      \<longrightarrow> int (length docs) \<le> k"
      and ret: "retrieve_news w q df max_results = Inr arts"
      and k: "k = (case max_results of None \<Rightarrow> 5 | Some supplied \<Rightarrow> supplied)"
      and pos: "1 \<le> k"
  shows "int (length arts) \<le> k"
proof -
  from ret obtain fc docs where
    s: "similarity_search w q (case max_results of None \<Rightarrow> 5 | Some k \<Rightarrow> k) fc = Inr docs"
    and a: "arts = format_results docs []"
    by (rule retrieve_news_returns)
  from honours pos s k have "int (length docs) \<le> k" by blast
  moreover from a have "length arts = length docs" by (simp add: format_results_append)
  ultimately show ?thesis by simp
qed

theorem retrieve_news_at_most_k_witness:
  "retrieve_news (example_env ''{}'' (Some (JObj [])) (list_store seven_docs) None) ''AI'' [] None
     = Inr (map (\<lambda>t. \<lparr>title = t, url = ''#'', date = ''Unknown date''\<rparr>)
              [''a'', ''b'', ''c'', ''d'', ''e''])
   \<and> int (length (map (\<lambda>t. \<lparr>title = t, url = ''#'', date = ''Unknown date''\<rparr>)
              [''a'', ''b'', ''c'', ''d'', ''e''])) \<le> 5
   \<and> retrieve_news (example_env ''{}'' (Some (JObj [])) (list_store seven_docs) None) ''AI'' []
        (Some 2)
     = Inr (map (\<lambda>t. \<lparr>title = t, url = ''#'', date = ''Unknown date''\<rparr>) [''a'', ''b''])
   \<and> int (length (map (\<lambda>t. \<lparr>title = t, url = ''#'', date = ''Unknown date''\<rparr>)
              [''a'', ''b''])) \<le> 2"
proof -
  let ?w = "example_env ''{}'' (Some (JObj [])) (list_store seven_docs) None"
  let ?five = "map (\<lambda>t. \<lparr>title = t, url = ''#'', date = ''Unknown date''\<rparr>)
              [''a'', ''b'', ''c'', ''d'', ''e'']"
  let ?two = "map (\<lambda>t. \<lparr>title = t, url = ''#'', date = ''Unknown date''\<rparr>) [''a'', ''b'']"
  have h: "\<forall>q k fc docs. 1 \<le> k \<longrightarrow> similarity_search ?w q k fc = Inr docs
                      \<longrightarrow> int (length docs) \<le> k"
    by (auto simp: example_env_def list_store_def)
  have n5: "nat 5 = Suc (Suc (Suc (Suc (Suc 0))))" and n2: "nat 2 = Suc (Suc 0)" by simp_all
  have r5: "retrieve_news ?w ''AI'' [] None = Inr ?five"
    by (simp add: retrieve_news_def filter_condition_def must_conditions_def example_env_def
          list_store_def seven_docs_def metadata_get_def n5)
  have r2: "retrieve_news ?w ''AI'' [] (Some 2) = Inr ?two"
    by (simp add: retrieve_news_def filter_condition_def must_conditions_def example_env_def
          list_store_def seven_docs_def metadata_get_def n2)
  from retrieve_news_at_most_k [OF h r5, of 5] have "int (length ?five) \<le> 5" by simp
  moreover from retrieve_news_at_most_k [OF h r2, of 2] have "int (length ?two) \<le> 2" by simp
  ultimately show ?thesis using r5 r2 by simp
qed





text \<open>
  C8. When the \<^verbatim>\<open>try\<close> block of a handler raises an exception \<open>e\<close>, the handler
  appends one record to the log, whose answer is \<^verbatim>\<open>ERROR: \<close> followed by the exception
  text, \<^verbatim>\<open>Stack Trace:\<close> and the trace, and whose question is the query of the request
  (\<^verbatim>\<open>get_retrieval\<close>) or the printed message list of the request (\<^verbatim>\<open>get_completion\<close>),
  and answers 500 with the exception text, \<^verbatim>\<open>Stack Trace:\<close> and the trace as detail.
  An exception of the vector search reaches the \<^verbatim>\<open>try\<close> block unchanged: it is not
  turned into a result.
\<close>

theorem handler_failure_500_and_log:
  "(get_retrieval_try w rreq = Inl e
    \<longrightarrow> get_retrieval w rreq chat_log
        = (HTTPException 500
             (str_exc w e @ [newline] @ ''Stack Trace:'' @ [newline] @ format_exc w e),
           chat_log @ [\<lparr>time = log_time w, question = query rreq,
                        answer = ''ERROR: '' @ str_exc w e @ [newline] @ ''Stack Trace:''
                                   @ [newline] @ format_exc w e\<rparr>]))
   \<and> (get_completion_try w creq = Inl e
    \<longrightarrow> get_completion w creq chat_log
        = (HTTPException 500
             (str_exc w e @ [newline] @ ''Stack Trace:'' @ [newline] @ format_exc w e),
           chat_log @ [\<lparr>time = log_time w, question = str_messages w (messages creq),
                        answer = ''ERROR: '' @ str_exc w e @ [newline] @ ''Stack Trace:''
                                   @ [newline] @ format_exc w e\<rparr>]))
   \<and> (extract_queries_and_date_filters w [\<lparr>role = ''user'', content = query rreq\<rparr>] = Inr ex
      \<and> filter_condition w (date_filter ex) = Inr fc
      \<and> similarity_search w (query rreq) 5 fc = Inl e
    \<longrightarrow> get_retrieval_try w rreq = Inl e)
   \<and> (extract_queries_and_date_filters w (messages creq) = Inr ex
      \<and> filter_condition w (date_filter ex) = Inr fc
      \<and> similarity_search w (last_user_message (messages creq)) 5 fc = Inl e
    \<longrightarrow> get_completion_try w creq = Inl e)"
  by (simp add: get_retrieval_def get_completion_def write_log_def error_detail_def
        error_answer_def get_retrieval_try_def get_completion_try_def retrieve_news_def Let_def)

theorem handler_failure_500_and_log_witness:
  "get_retrieval (example_env reply_ai_news (Some json_ai_news) down_store (Some ''s3cret''))
      \<lparr>query = ''AI news''\<rparr> []
     = (HTTPException 500
          (''connection refused'' @ [newline] @ ''Stack Trace:'' @ [newline]
             @ ''Traceback (most recent call last):''),
        [\<lparr>time = ''2024-06-01 12:00:00'', question = ''AI news'',
          answer = ''ERROR: connection refused'' @ [newline] @ ''Stack Trace:'' @ [newline]
                     @ ''Traceback (most recent call last):''\<rparr>])
   \<and> get_completion (example_env reply_ai_news (Some json_ai_news) down_store (Some ''s3cret''))
      \<lparr>messages = [\<lparr>role = ''user'', content = ''AI news''\<rparr>]\<rparr> []
     = (HTTPException 500
          (''connection refused'' @ [newline] @ ''Stack Trace:'' @ [newline]
             @ ''Traceback (most recent call last):''),
        [\<lparr>time = ''2024-06-01 12:00:00'',
          question = example_str_messages [\<lparr>role = ''user'', content = ''AI news''\<rparr>],
          answer = ''ERROR: connection refused'' @ [newline] @ ''Stack Trace:'' @ [newline]
                     @ ''Traceback (most recent call last):''\<rparr>])"
proof -
  let ?w = "example_env reply_ai_news (Some json_ai_news) down_store (Some ''s3cret'')"
  let ?ex = "\<lparr>queries = JArr [JStr ''AI news''], date_filter = [], error = None\<rparr>"
  let ?e = "RemoteError ''connection refused''"
  let ?rreq = "\<lparr>query = ''AI news''\<rparr>"
  let ?creq = "\<lparr>messages = [\<lparr>role = ''user'', content = ''AI news''\<rparr>]\<rparr>"
  have fc: "filter_condition ?w (date_filter ?ex) = Inr None"
    by (simp add: filter_condition_def must_conditions_def)
  have s: "similarity_search ?w q 5 None = Inl ?e" for q
    by (simp add: example_env_def down_store_def)
  note t = handler_failure_500_and_log [of ?w ?rreq ?e "[]" ?creq ?ex None]
  from t fc s have r: "get_retrieval_try ?w ?rreq = Inl ?e"
    by (simp add: extract_ai_news)
  from t fc s have c: "get_completion_try ?w ?creq = Inl ?e"
    by (simp add: extract_ai_news)
  from t r c show ?thesis
    by (simp add: example_env_def example_str_exc_def)
qed

text \<open>
  C9. The fallback covers a failure to decode only. When the model's reply is valid
  JSON that is not an object (an array, a string, a number, a boolean or \<^verbatim>\<open>null\<close>), the
  call \<^verbatim>\<open>extracted_data.get\<close> raises \<^verbatim>\<open>AttributeError\<close>, which the \<^verbatim>\<open>except\<close> clause
  does not catch: the function raises instead of returning the empty defaults.
\<close>

theorem extract_non_object_raises:
  assumes "chat_completions_create w ''gpt-4o'' (extraction_messages w msgs) (Some ''json_object'')
             = Inr completion"
      and "json_loads w completion = Some v"
      and "\<not> is_dict v"
  shows "extract_queries_and_date_filters w msgs = Inl AttributeError"
  using assms
  by (simp add: extract_queries_and_date_filters_def extract_try_def build_result_def
        py_get_not_dict)

theorem extract_non_object_raises_witness:
  "json_loads (example_env ''[]'' (Some (JArr [])) echo_store None) ''[]'' = Some (JArr [])
   \<and> \<not> is_dict (JArr [])
   \<and> extract_queries_and_date_filters (example_env ''[]'' (Some (JArr [])) echo_store None)
         [\<lparr>role = ''user'', content = ''news about AI''\<rparr>]
       = Inl AttributeError"
  using extract_non_object_raises
          [of "example_env ''[]'' (Some (JArr [])) echo_store None"
              "[\<lparr>role = ''user'', content = ''news about AI''\<rparr>]" "''[]''" "JArr []"]
  by (simp add: example_env_def example_chat_def)

text \<open>
  C10. A list returned by \<^verbatim>\<open>retrieve_news\<close> is the list of the documents the search
  returned, in the same order, each turned into an article whose title is the document's
  text, whose url is the metadata's \<^verbatim>\<open>url\<close> or \<^verbatim>\<open>#\<close> when the metadata has none, and
  whose date is the metadata's \<^verbatim>\<open>date\<close> or \<^verbatim>\<open>Unknown date\<close> when it has none. An
  article is a record with the three fields, so both are present in each.
\<close>

theorem retrieve_news_url_date_defaults:
  assumes "retrieve_news w q df max_results = Inr arts"
  shows "\<exists>fc docs.
           filter_condition w df = Inr fc
         \<and> similarity_search w q (case max_results of None \<Rightarrow> 5 | Some k \<Rightarrow> k) fc = Inr docs
         \<and> arts = map (\<lambda>doc. \<lparr>title = page_content doc,
                               url = (case map_of (metadata doc) ''url'' of
                                        None \<Rightarrow> ''#'' | Some u \<Rightarrow> u),
                               date = (case map_of (metadata doc) ''date'' of
                                         None \<Rightarrow> ''Unknown date'' | Some d \<Rightarrow> d)\<rparr>) docs"
proof -
  from assms obtain fc docs where "filter_condition w df = Inr fc"
    and "similarity_search w q (case max_results of None \<Rightarrow> 5 | Some k \<Rightarrow> k) fc = Inr docs"
    and "arts = format_results docs []"
    by (rule retrieve_news_returns)
  then show ?thesis by (auto simp: format_results_append)
qed

theorem retrieve_news_url_date_defaults_witness:
  "retrieve_news (example_env ''{}'' (Some (JObj [])) (list_store two_docs) None) ''AI'' [] None
     = Inr [\<lparr>title = ''Chip maker reports record quarter'', url = ''https://example.org/a'',
             date = ''2024-05-30''\<rparr>,
            \<lparr>title = ''New model released'', url = ''#'', date = ''Unknown date''\<rparr>]
   \<and> (\<exists>fc docs.
         filter_condition (example_env ''{}'' (Some (JObj [])) (list_store two_docs) None) [] = Inr fc
       \<and> similarity_search (example_env ''{}'' (Some (JObj [])) (list_store two_docs) None)
            ''AI'' 5 fc = Inr docs
       \<and> [\<lparr>title = ''Chip maker reports record quarter'', url = ''https://example.org/a'',
             date = ''2024-05-30''\<rparr>,
            \<lparr>title = ''New model released'', url = ''#'', date = ''Unknown date''\<rparr>]
          = map (\<lambda>doc. \<lparr>title = page_content doc,
                         url = (case map_of (metadata doc) ''url'' of
                                  None \<Rightarrow> ''#'' | Some u \<Rightarrow> u),
                         date = (case map_of (metadata doc) ''date'' of
                                   None \<Rightarrow> ''Unknown date'' | Some d \<Rightarrow> d)\<rparr>) docs)"
proof -
  let ?w = "example_env ''{}'' (Some (JObj [])) (list_store two_docs) None"
  have r: "retrieve_news ?w ''AI'' [] None
     = Inr [\<lparr>title = ''Chip maker reports record quarter'', url = ''https://example.org/a'',
             date = ''2024-05-30''\<rparr>,
            \<lparr>title = ''New model released'', url = ''#'', date = ''Unknown date''\<rparr>]"
    by (simp add: retrieve_news_def filter_condition_def must_conditions_def example_env_def
          list_store_def two_docs_def metadata_get_def)
  from retrieve_news_url_date_defaults [OF r] r show ?thesis by simp
qed

section \<open>Further properties\<close>

text \<open>
  \<^verbatim>\<open>respond\<close> searches with the extracted queries joined by single blanks when the
  extracted list is a non-empty list of strings, and with the message just sent, which
  is the last user message of the transcript, when the list is empty.
\<close>

theorem respond_effective_query:
  assumes "extract_queries_and_date_filters w (respond_messages msg history) = Inr ex"
      and "queries ex = JArr qs"
      and "str_items qs = Some ss"
  shows "respond w msg history =
           (case retrieve_news w
                   (if ss = [] then last_user_message (respond_messages msg history)
                    else join '' '' ss)
                   (date_filter ex) None of
              Inl e \<Rightarrow> Inl e
            | Inr news \<Rightarrow> generate_rag_response w (respond_messages msg history) news)"
proof -
  have "ss = [] \<longleftrightarrow> qs = []"
    using assms(3) by (cases qs rule: str_items.cases) (auto split: option.splits)
  then show ?thesis using assms
    by (auto simp: respond_def respond_query_def respond_messages_def last_user_message_snoc)
qed

theorem respond_effective_query_witness:
  "respond (example_env reply_ai_news (Some json_ai_news) echo_store None) ''show me AI news'' []
     = Inr (user_prompt
              (rag_context [\<lparr>title = ''AI news'', url = ''#'', date = ''Unknown date''\<rparr>])
              ''show me AI news'')"
  using respond_effective_query
          [of "example_env reply_ai_news (Some json_ai_news) echo_store None" "''show me AI news''"
              "[]" "\<lparr>queries = JArr [JStr ''AI news''], date_filter = [], error = None\<rparr>"
              "[JStr ''AI news'']" "[''AI news'']"]
  by (simp add: extract_ai_news retrieve_echo generate_echo respond_messages_def
        last_user_message_single)

text \<open>
  A bound that is not a string (the model may put a number) makes \<^verbatim>\<open>strptime\<close> raise
  \<^verbatim>\<open>TypeError\<close>, which \<^verbatim>\<open>except ValueError\<close> does not catch: the filter compilation
  raises and so does \<^verbatim>\<open>retrieve_news\<close>.
\<close>

theorem filter_condition_type_error:
  assumes "map_of df ''gte'' = Some v"
      and "strptime_Ymd w v = Inl TypeError"
  shows "filter_condition w df = Inl TypeError \<and> retrieve_news w q df max_results = Inl TypeError"
proof -
  from assms(1) have "df \<noteq> []" by auto
  with assms have "filter_condition w df = Inl TypeError"
    by (simp add: filter_condition_def must_conditions_def parse_bound_def except_ValueError_def)
  then show ?thesis by (simp add: retrieve_news_def)
qed

theorem filter_condition_type_error_witness:
  "retrieve_news (example_env ''{}'' (Some (JObj [])) (list_store two_docs) None) ''AI''
     [(''gte'', JInt 20240531)] None = Inl TypeError"
  using filter_condition_type_error
          [of "[(''gte'', JInt 20240531)]" "JInt 20240531"
              "example_env ''{}'' (Some (JObj [])) (list_store two_docs) None" "''AI''" None]
  by (simp add: example_env_def strptime_number)

end
